theory Spec2Isabelle
  imports Main "HOL-Library.Word"
begin

section \<open>Strings: the Go library functions the parser calls\<close>

text \<open>
  A Go string is a sequence of bytes, modelled as \<open>string\<close> (a list of 8-bit characters).
  \<open>Split\<close> is \<^verbatim>\<open>strings.Split(s, sep)\<close> for a separator of one byte: the result always has
  one more unit than there are separators in \<open>s\<close>, so it is never empty.
\<close>

fun Split :: "string \<Rightarrow> char \<Rightarrow> string list" where
  "Split [] sep = [[]]"
| "Split (c # cs) sep =
     (if c = sep then [] # Split cs sep
      else (case Split cs sep of [] \<Rightarrow> [[c]] | u # us \<Rightarrow> (c # u) # us))"

text \<open>
  \<^verbatim>\<open>strings.TrimSpace\<close> removes every leading and trailing white-space rune, as defined by
  Unicode. On bytes these are the UTF-8 encodings below: the six ASCII characters, U+0085,
  U+00A0, U+1680, U+2000 to U+200A, U+2028, U+2029, U+202F, U+205F and U+3000.
\<close>

definition spaceRunes :: "string list" where
  "spaceRunes =
     [[CHR 0x09], [CHR 0x0A], [CHR 0x0B], [CHR 0x0C], [CHR 0x0D], [CHR 0x20],
      [CHR 0xC2, CHR 0x85], [CHR 0xC2, CHR 0xA0], [CHR 0xE1, CHR 0x9A, CHR 0x80],
      [CHR 0xE2, CHR 0x80, CHR 0x80], [CHR 0xE2, CHR 0x80, CHR 0x81],
      [CHR 0xE2, CHR 0x80, CHR 0x82], [CHR 0xE2, CHR 0x80, CHR 0x83],
      [CHR 0xE2, CHR 0x80, CHR 0x84], [CHR 0xE2, CHR 0x80, CHR 0x85],
      [CHR 0xE2, CHR 0x80, CHR 0x86], [CHR 0xE2, CHR 0x80, CHR 0x87],
      [CHR 0xE2, CHR 0x80, CHR 0x88], [CHR 0xE2, CHR 0x80, CHR 0x89],
      [CHR 0xE2, CHR 0x80, CHR 0x8A], [CHR 0xE2, CHR 0x80, CHR 0xA8],
      [CHR 0xE2, CHR 0x80, CHR 0xA9], [CHR 0xE2, CHR 0x80, CHR 0xAF],
      [CHR 0xE2, CHR 0x81, CHR 0x9F], [CHR 0xE3, CHR 0x80, CHR 0x80]]"

text \<open>The number of bytes of the white-space rune \<open>s\<close> starts with, if it starts with one.\<close>

fun leadingRune :: "string list \<Rightarrow> string \<Rightarrow> nat option" where
  "leadingRune [] s = None"
| "leadingRune (r # rs) s =
     (if r \<noteq> [] \<and> take (length r) s = r then Some (length r) else leadingRune rs s)"

text \<open>
  The trimming loop, with the length of the string as fuel: each round removes at least one
  byte, so the fuel never runs out before the loop ends.
\<close>

fun trimLeading :: "nat \<Rightarrow> string list \<Rightarrow> string \<Rightarrow> string" where
  "trimLeading 0 rs s = s"
| "trimLeading (Suc n) rs s =
     (case leadingRune rs s of None \<Rightarrow> s | Some k \<Rightarrow> trimLeading n rs (drop k s))"

definition TrimSpace :: "string \<Rightarrow> string" where
  "TrimSpace s =
     (let l = trimLeading (length s) spaceRunes s
      in rev (trimLeading (length l) (map rev spaceRunes) (rev l)))"

text \<open>
  \<open>MatchString\<close> is \<^verbatim>\<open>validNameRegex.MatchString(unit)\<close> for the pattern
  \<^verbatim>\<open>^[a-z0-9]([-a-z0-9]*[a-z0-9])?$\<close>: the unit is not empty, it starts and ends with a
  lower-case letter or a digit, and holds nothing but those and \<open>-\<close>.
\<close>

definition isLowerAlnum :: "char \<Rightarrow> bool" where
  "isLowerAlnum c \<longleftrightarrow> c \<in> set ''abcdefghijklmnopqrstuvwxyz0123456789''"

definition MatchString :: "string \<Rightarrow> bool" where
  "MatchString unit \<longleftrightarrow>
     unit \<noteq> [] \<and> isLowerAlnum (hd unit) \<and> isLowerAlnum (last unit) \<and>
     list_all (\<lambda>c. isLowerAlnum c \<or> c = CHR ''-'') unit"

section \<open>The network selection parser (pkg/controller/utils.go)\<close>

text \<open>
  \<open>NetworkSelectionElement\<close> is the type of multus-cni; the fields the controller reads
  and writes are the three below (any further field lives in the record's extension).
\<close>

record NetworkSelectionElement =
  nse_Name :: string
  nse_Namespace :: string
  nse_InterfaceRequest :: string

text \<open>
  Errors are values. \<open>NilPointerDereference\<close> is not a returned error but the run-time panic
  of reading a field through a nil pointer; it unwinds through every caller.
\<close>

datatype error =
    EmptySelectionList
  | MoreThanOneSlash string
  | MoreThanOneAt string
  | InvalidUnit string
  | Wrapped error
  | NilPointerDereference
  | JSONError
  | UnexpectedKeyFormat string
  | NotFound
  | NoNetworkAnnotations
  | MultipleNetworkSelections
  | ListError
  | NoSuitablePort
  | UpdateError

fun parsePodNetworkSelectionElement :: "string \<Rightarrow> string \<Rightarrow> error + NetworkSelectionElement" where
  "parsePodNetworkSelectionElement selection defaultNamespace =
     (case (case Split selection CHR ''/'' of
              [u0] \<Rightarrow> Inr (defaultNamespace, u0)
            | [u0, u1] \<Rightarrow> Inr (u0, u1)
            | _ \<Rightarrow> Inl (MoreThanOneSlash selection)) of
        Inl e \<Rightarrow> Inl e
      | Inr (namespace, name0) \<Rightarrow>
          (case (case Split name0 CHR ''@'' of
                   [u0] \<Rightarrow> Inr (u0, [])
                 | [u0, u1] \<Rightarrow> Inr (u0, u1)
                 | _ \<Rightarrow> Inl (MoreThanOneAt selection)) of
             Inl e \<Rightarrow> Inl e
           | Inr (name, netInterface) \<Rightarrow>
               (case filter (\<lambda>unit. \<not> MatchString unit \<and> length unit > 0)
                       [namespace, name, netInterface] of
                  unit # _ \<Rightarrow> Inl (InvalidUnit unit)
                | [] \<Rightarrow> Inr \<lparr>nse_Name = name, nse_Namespace = namespace,
                              nse_InterfaceRequest = netInterface\<rparr>)))"

text \<open>
  \<^verbatim>\<open>json.Unmarshal\<close> belongs to the Go library and is a parameter of the model: given the
  text it returns what it left in the target slice and its error. The slice holds pointers,
  so an element may be nil (\<open>None\<close>), as for the JSON text \<^verbatim>\<open>[null]\<close>; and the slice may
  be left partly filled when the error is a type mismatch.
\<close>

type_synonym selectionsUnmarshal = "string \<Rightarrow> NetworkSelectionElement option list \<times> error option"

text \<open>The loop over the comma-separated units, appending to \<open>networkSelections\<close>.\<close>

fun parseCommaSeparated ::
  "string list \<Rightarrow> string \<Rightarrow> NetworkSelectionElement option list
     \<Rightarrow> error + NetworkSelectionElement option list" where
  "parseCommaSeparated [] defaultNamespace networkSelections = Inr networkSelections"
| "parseCommaSeparated (networkSelection # rest) defaultNamespace networkSelections =
     (case parsePodNetworkSelectionElement (TrimSpace networkSelection) defaultNamespace of
        Inl err \<Rightarrow> Inl (Wrapped err)
      | Inr networkSelectionElement \<Rightarrow>
          parseCommaSeparated rest defaultNamespace
            (networkSelections @ [Some networkSelectionElement]))"

text \<open>
  The body and the loop that fill the missing namespaces (lines 79 to 84). The slice holds
  pointers, so the assignment changes the element of the slice; reading the field of a nil
  element panics.
\<close>

definition fillNamespace :: "string \<Rightarrow> NetworkSelectionElement \<Rightarrow> NetworkSelectionElement" where
  "fillNamespace defaultNamespace networkSelection =
     (if nse_Namespace networkSelection = []
      then networkSelection\<lparr>nse_Namespace := defaultNamespace\<rparr>
      else networkSelection)"

fun fillNamespaces ::
  "string \<Rightarrow> NetworkSelectionElement option list \<Rightarrow> error + NetworkSelectionElement list" where
  "fillNamespaces defaultNamespace [] = Inr []"
| "fillNamespaces defaultNamespace (None # rest) = Inl NilPointerDereference"
| "fillNamespaces defaultNamespace (Some networkSelection # rest) =
     (case fillNamespaces defaultNamespace rest of
        Inl e \<Rightarrow> Inl e
      | Inr filled \<Rightarrow> Inr (fillNamespace defaultNamespace networkSelection # filled))"

text \<open>
  Lines 61 to 77: the slice after the JSON attempt and, when that failed, after the
  comma-separated units were appended to it.
\<close>

definition parsedSelections ::
  "selectionsUnmarshal \<Rightarrow> string \<Rightarrow> string \<Rightarrow> error + NetworkSelectionElement option list" where
  "parsedSelections unmarshal podNetworks defaultNamespace =
     (case unmarshal podNetworks of
        (networkSelections, None) \<Rightarrow> Inr networkSelections
      | (networkSelections, Some err) \<Rightarrow>
          parseCommaSeparated (Split podNetworks CHR '','') defaultNamespace networkSelections)"

definition parsePodNetworkSelections ::
  "selectionsUnmarshal \<Rightarrow> string \<Rightarrow> string \<Rightarrow> error + NetworkSelectionElement list" where
  "parsePodNetworkSelections unmarshal podNetworks defaultNamespace =
     (if length podNetworks = 0 then Inl EmptySelectionList
      else
        (case parsedSelections unmarshal podNetworks defaultNamespace of
           Inl e \<Rightarrow> Inl e
         | Inr networkSelections \<Rightarrow> fillNamespaces defaultNamespace networkSelections))"

text \<open>
  The results of \<^verbatim>\<open>json.Unmarshal\<close> on the texts used in the examples of this theory: one
  JSON array of one object, decoded; every other text of the examples is no JSON value, and
  is refused with the slice left nil. The examples apply it to those texts only.
\<close>

definition exampleUnmarshal :: selectionsUnmarshal where
  \<open>exampleUnmarshal text =
     (if text = ''[{"name":"BR0"}]''
      then ([Some \<lparr>nse_Name = ''BR0'', nse_Namespace = [], nse_InterfaceRequest = []\<rparr>], None)
      else if text = ''[{"name":"br0","namespace":"default"}]''
      then ([Some \<lparr>nse_Name = ''br0'', nse_Namespace = ''default'',
                   nse_InterfaceRequest = []\<rparr>], None)
      else ([], Some JSONError))\<close>

section \<open>The grammar of a comma-separated unit, in the words of the specification\<close>

text \<open>
  The specification gives a unit the grammar \<^verbatim>\<open>[namespace "/"] name ["@" interface]\<close>.
  \<open>unitComponents\<close> reads the three components off a unit by that grammar, with no reference
  to the parser: the namespace is what stands before the \<open>/\<close> (the default namespace when
  there is none), the interface what stands after the \<open>@\<close>, the name what lies between.
  A unit violates the grammar when it holds more than one \<open>/\<close> or more than one \<open>@\<close>, or
  when one of its non-empty components does not match the label pattern.
\<close>

definition unitComponents :: "string \<Rightarrow> string \<Rightarrow> string list" where
  "unitComponents defaultNamespace u =
     (let namespace = (if CHR ''/'' \<in> set u then takeWhile (\<lambda>c. c \<noteq> CHR ''/'') u
                       else defaultNamespace);
          rest = (if CHR ''/'' \<in> set u then tl (dropWhile (\<lambda>c. c \<noteq> CHR ''/'') u) else u);
          name = takeWhile (\<lambda>c. c \<noteq> CHR ''@'') rest;
          interface = (if CHR ''@'' \<in> set rest then tl (dropWhile (\<lambda>c. c \<noteq> CHR ''@'') rest)
                       else [])
      in [namespace, name, interface])"

definition unitViolatesGrammar :: "string \<Rightarrow> string \<Rightarrow> bool" where
  "unitViolatesGrammar defaultNamespace u \<longleftrightarrow>
     1 < count_list u CHR ''/'' \<or> 1 < count_list u CHR ''@'' \<or>
     list_ex (\<lambda>c. c \<noteq> [] \<and> \<not> MatchString c) (unitComponents defaultNamespace u)"


section \<open>Cluster objects\<close>

text \<open>
  The objects of the cluster API, with the fields the controller reads or writes. A Go map
  is a partial function. \<open>Port\<close> is an \<^verbatim>\<open>int32\<close>.
\<close>

record OwnerReference =
  or_APIVersion :: string
  or_Kind :: string
  or_Name :: string
  or_UID :: string
  or_Controller :: bool
  or_BlockOwnerDeletion :: bool

record ObjectMeta =
  om_Name :: string
  om_Namespace :: string
  om_ResourceVersion :: string
  om_UID :: string
  om_Annotations :: "string \<rightharpoonup> string"
  om_OwnerReferences :: "OwnerReference list"

datatype IntOrString = IntVal int | StrVal string

record ServicePort =
  sp_Name :: string
  sp_Protocol :: string
  sp_TargetPort :: IntOrString

record Service =
  svc_meta :: ObjectMeta
  svc_Selector :: "string \<rightharpoonup> string"
  svc_Ports :: "ServicePort list"

record Pod =
  pod_meta :: ObjectMeta
  pod_NodeName :: string

record ObjectReference =
  ref_Kind :: string
  ref_Name :: string
  ref_Namespace :: string
  ref_ResourceVersion :: string
  ref_UID :: string

record EndpointAddress =
  ea_IP :: string
  ea_NodeName :: string
  ea_TargetRef :: ObjectReference

record EndpointPort =
  ep_Name :: string
  ep_Port :: "32 word"
  ep_Protocol :: string

record EndpointSubset =
  ss_Addresses :: "EndpointAddress list"
  ss_Ports :: "EndpointPort list"

record Endpoints =
  eps_meta :: ObjectMeta
  eps_Subsets :: "EndpointSubset list"

record NetworkStatus =
  st_Name :: string
  st_Interface :: string
  st_IPs :: "string list"

record NetworkAttachmentDefinition =
  nad_meta :: ObjectMeta
  nad_Config :: string

definition selectionsKey :: string where
  "selectionsKey = ''k8s.v1.cni.cncf.io/networks''"

definition statusesKey :: string where
  "statusesKey = ''k8s.v1.cni.cncf.io/networks-status''"

section \<open>What the controller does to the outside\<close>

text \<open>
  Every function of the controller returns, with its result, the list of the effects it had,
  in order: the messages it logged (by \<^verbatim>\<open>klog\<close> severity; \<open>InfoV n\<close> is \<^verbatim>\<open>klog.V(n).Info\<close>),
  the reads of the caches, the write to the cached Endpoints object (the lister hands out a
  pointer into the cache, and \<^verbatim>\<open>sync\<close> assigns through it), the calls to the API and
  the events handed to the recorder. The messages the parser logs are left out: the parser
  is a function of its arguments.

  \<open>Event\<close> keeps the four arguments of \<^verbatim>\<open>recorder.Event\<close> in the order of client-go's
  \<^verbatim>\<open>EventRecorder\<close> interface, \<^verbatim>\<open>Event(object, eventtype, reason, message)\<close>: the third
  argument of a call is the event's reason, the fourth its message.
\<close>

datatype severity = InfoV nat | Info | Warning | Error

datatype eventObject = ServiceObject string string | EndpointsObject string string

datatype eventType = EventTypeNormal | EventTypeWarning

datatype effect =
    Log severity
  | ServiceGet string string
  | PodsList "string \<rightharpoonup> string"
  | EndpointsGet string string
  | EndpointsCacheWrite Endpoints
  | EndpointsUpdate Endpoints
  | Event eventObject eventType string string
  | QueueDone string
  | NetAttachDefGet string string
  | NetAttachDefCreate NetworkAttachmentDefinition

text \<open>
  The controller's collaborators are parameters: the listers of the caches, the API
  clients, and the library functions \<^verbatim>\<open>json.Unmarshal\<close> (at its two target types),
  \<^verbatim>\<open>podutil.FindPort\<close> and \<^verbatim>\<open>endpoints.RepackSubsets\<close>. An error of a lister or of a
  client is any value of \<open>error\<close>. The live read of a NetworkAttachmentDefinition takes the
  number of live reads made before it in the same run, since the API may answer differently
  from one read to the next.
\<close>

record NetworkController =
  serviceLister :: "string \<Rightarrow> string \<Rightarrow> error + Service"
  podsLister :: "(string \<rightharpoonup> string) \<Rightarrow> error + Pod list"
  podsListerEverything :: "Pod list"
  endpointsLister :: "string \<Rightarrow> string \<Rightarrow> error + Endpoints"
  endpointsUpdate :: "Endpoints \<Rightarrow> error option"
  netAttachDefGet :: "nat \<Rightarrow> string \<Rightarrow> string \<Rightarrow> error option"
  netAttachDefCreate :: "NetworkAttachmentDefinition \<Rightarrow> error option"
  unmarshalSelections :: selectionsUnmarshal
  unmarshalStatus :: "string \<Rightarrow> NetworkStatus list \<times> error option"
  FindPort :: "Pod \<Rightarrow> ServicePort \<Rightarrow> error + int"
  repackSubsets :: "EndpointSubset list \<Rightarrow> EndpointSubset list"

record Outcome =
  effects :: "effect list"
  err :: "error option"

section \<open>The helpers of pkg/controller/utils.go\<close>

definition getNetworkAnnotations :: "ObjectMeta \<Rightarrow> string" where
  "getNetworkAnnotations metaObject =
     (case om_Annotations metaObject selectionsKey of None \<Rightarrow> [] | Some annotations \<Rightarrow> annotations)"

fun isInNetworkSelectionElementsArray :: "string \<Rightarrow> NetworkSelectionElement list \<Rightarrow> bool" where
  "isInNetworkSelectionElementsArray name [] = False"
| "isInNetworkSelectionElementsArray name (network # networks) =
     (if name = nse_Name network then True
      else isInNetworkSelectionElementsArray name networks)"

section \<open>The reconciler: sync and processNextWorkItem (pkg/controller/controller.go)\<close>

text \<open>
  \<^verbatim>\<open>cache.SplitMetaNamespaceKey\<close> of client-go: a key without \<open>/\<close> is a name with an empty
  namespace, a key with one \<open>/\<close> is namespace and name, any other key is an error.
\<close>

definition SplitMetaNamespaceKey :: "string \<Rightarrow> error + string \<times> string" where
  "SplitMetaNamespaceKey key =
     (case Split key CHR ''/'' of
        [name] \<Rightarrow> Inr ([], name)
      | [namespace, name] \<Rightarrow> Inr (namespace, name)
      | _ \<Rightarrow> Inl (UnexpectedKeyFormat key))"

text \<open>The addresses of one status entry of a pod: one for each of its IPs (lines 212 to 225).\<close>

definition statusAddresses :: "Pod \<Rightarrow> NetworkStatus \<Rightarrow> EndpointAddress list" where
  "statusAddresses pod status =
     map (\<lambda>ip. \<lparr>ea_IP = ip,
                ea_NodeName = pod_NodeName pod,
                ea_TargetRef = \<lparr>ref_Kind = ''Pod'',
                                ref_Name = om_Name (pod_meta pod),
                                ref_Namespace = om_Namespace (pod_meta pod),
                                ref_ResourceVersion = om_ResourceVersion (pod_meta pod),
                                ref_UID = om_UID (pod_meta pod)\<rparr>\<rparr>)
         (st_IPs status)"

text \<open>The loop over the status entries of a pod (lines 207 to 227): its log and its addresses.\<close>

fun podAddresses ::
  "Pod \<Rightarrow> NetworkSelectionElement list \<Rightarrow> NetworkStatus list
     \<Rightarrow> effect list \<times> EndpointAddress list" where
  "podAddresses pod networks [] = ([], [])"
| "podAddresses pod networks (status # networksStatus) =
     (let (logs, addresses) = podAddresses pod networks networksStatus
      in if isInNetworkSelectionElementsArray (st_Name status) networks
         then (Log (InfoV 3) # logs, statusAddresses pod status @ addresses)
         else (logs, addresses))"

text \<open>The loop over the ports of the service (lines 228 to 242).\<close>

fun podPorts ::
  "NetworkController \<Rightarrow> Pod \<Rightarrow> ServicePort list \<Rightarrow> effect list \<times> EndpointPort list" where
  "podPorts c pod [] = ([], [])"
| "podPorts c pod (svcPort # svcPorts) =
     (let (logs, ports) = podPorts c pod svcPorts
      in case FindPort c pod svcPort of
           Inl e \<Rightarrow> (Log (InfoV 4) # logs, ports)
         | Inr portNumber \<Rightarrow>
             (logs, \<lparr>ep_Name = sp_Name svcPort,
                     ep_Port = word_of_int portNumber,
                     ep_Protocol = sp_Protocol svcPort\<rparr> # ports))"

text \<open>
  The body of the loop over the pods (lines 197 to 247): the log of the round and the
  subset it appends, if any. A missing status annotation reads as the empty string.
\<close>

definition statusAnnotation :: "Pod \<Rightarrow> string" where
  "statusAnnotation pod =
     (case om_Annotations (pod_meta pod) statusesKey of None \<Rightarrow> [] | Some v \<Rightarrow> v)"

definition podSubset ::
  "NetworkController \<Rightarrow> Service \<Rightarrow> NetworkSelectionElement list \<Rightarrow> Pod
     \<Rightarrow> effect list \<times> EndpointSubset list" where
  "podSubset c svc networks pod =
     (case unmarshalStatus c (statusAnnotation pod) of
        (networksStatus, Some e) \<Rightarrow> ([Log Warning], [])
      | (networksStatus, None) \<Rightarrow>
          (let (logs1, addresses) = podAddresses pod networks networksStatus;
               (logs2, ports) = podPorts c pod (svc_Ports svc)
           in (logs1 @ logs2, [\<lparr>ss_Addresses = addresses, ss_Ports = ports\<rparr>])))"

fun buildSubsets ::
  "NetworkController \<Rightarrow> Service \<Rightarrow> NetworkSelectionElement list \<Rightarrow> Pod list
     \<Rightarrow> effect list \<times> EndpointSubset list" where
  "buildSubsets c svc networks [] = ([], [])"
| "buildSubsets c svc networks (pod # pods) =
     (let (logs, subset) = podSubset c svc networks pod;
          (logs', subsets) = buildSubsets c svc networks pods
      in (logs @ logs', subset @ subsets))"

text \<open>\<^verbatim>\<open>metav1.NewControllerRef\<close> for the group-version-kind \<^verbatim>\<open>v1\<close>, \<^verbatim>\<open>Service\<close>.\<close>

definition NewControllerRef :: "Service \<Rightarrow> OwnerReference" where
  "NewControllerRef svc =
     \<lparr>or_APIVersion = ''v1'', or_Kind = ''Service'',
      or_Name = om_Name (svc_meta svc), or_UID = om_UID (svc_meta svc),
      or_Controller = True, or_BlockOwnerDeletion = True\<rparr>"

definition multipleSelectionsMsg :: string where
  "multipleSelectionsMsg = ''multiple network selections in the service spec are not supported''"

definition sync :: "NetworkController \<Rightarrow> string \<Rightarrow> Outcome" where
  "sync c key =
     (case SplitMetaNamespaceKey key of
        Inl e \<Rightarrow> \<lparr>effects = [], err = Some e\<rparr>
      | Inr (namespace, name) \<Rightarrow>
     (case serviceLister c namespace name of
        Inl e \<Rightarrow> \<lparr>effects = [ServiceGet namespace name], err = Some e\<rparr>
      | Inr svc \<Rightarrow>
     (let annotations = getNetworkAnnotations (svc_meta svc);
          svcObject = ServiceObject (om_Namespace (svc_meta svc)) (om_Name (svc_meta svc))
      in if length annotations = 0
         then \<lparr>effects = [ServiceGet namespace name], err = Some NoNetworkAnnotations\<rparr>
         else
     (case parsePodNetworkSelections (unmarshalSelections c) annotations namespace of
        Inl e \<Rightarrow> \<lparr>effects = [ServiceGet namespace name, Log (InfoV 3)], err = Some e\<rparr>
      | Inr networks \<Rightarrow>
         if length networks > 1
         then \<lparr>effects = [ServiceGet namespace name, Log (InfoV 3), Log Warning,
                          Event svcObject EventTypeWarning multipleSelectionsMsg
                            ''Endpoints update aborted''],
               err = Some MultipleNetworkSelections\<rparr>
         else
     (case podsLister c (svc_Selector svc) of
        Inl e \<Rightarrow> \<lparr>effects = [ServiceGet namespace name, Log (InfoV 3),
                              PodsList (svc_Selector svc), Log (InfoV 4)],
                   err = Some e\<rparr>
      | Inr pods \<Rightarrow>
     (case endpointsLister c namespace name of
        Inl e \<Rightarrow> \<lparr>effects = [ServiceGet namespace name, Log (InfoV 3),
                              PodsList (svc_Selector svc), EndpointsGet namespace name,
                              Log (InfoV 4)],
                   err = Some e\<rparr>
      | Inr ep \<Rightarrow>
     (let (logs, subsets) = buildSubsets c svc networks pods;
          ep' = ep\<lparr>eps_meta := (eps_meta ep)\<lparr>om_OwnerReferences := [NewControllerRef svc]\<rparr>,
                   eps_Subsets := repackSubsets c subsets\<rparr>;
          epObject = EndpointsObject (om_Namespace (eps_meta ep')) (om_Name (eps_meta ep'));
          before = [ServiceGet namespace name, Log (InfoV 3), PodsList (svc_Selector svc),
                    EndpointsGet namespace name] @ logs @
                   [EndpointsCacheWrite ep', EndpointsUpdate ep'];
          msg = ''Updated to use network '' @ annotations
      in case endpointsUpdate c ep' of
           Some e \<Rightarrow> \<lparr>effects = before @ [Log Error], err = Some e\<rparr>
         | None \<Rightarrow>
             \<lparr>effects = before @
                [Log Info,
                 Event epObject EventTypeNormal msg ''Endpoints update successful'',
                 Event svcObject EventTypeNormal msg ''Endpoints update successful''],
              err = None\<rparr>)))))))"

text \<open>
  A call either returns or panics; a panic inside \<^verbatim>\<open>sync\<close> still runs the deferred
  \<^verbatim>\<open>workqueue.Done\<close> while it unwinds.
\<close>

datatype 'a completion = Returned 'a | Panicked

text \<open>
  \<open>processNextWorkItem\<close>, given what \<^verbatim>\<open>workqueue.Get\<close> returned: the key and whether the
  queue is shutting down.
\<close>

definition processNextWorkItem ::
  "NetworkController \<Rightarrow> string \<times> bool \<Rightarrow> effect list \<times> bool completion" where
  "processNextWorkItem c got =
     (case got of (key, shouldQuit) \<Rightarrow>
        if shouldQuit then ([], Returned False)
        else
          (let out = sync c key
           in case err out of
                Some NilPointerDereference \<Rightarrow> (effects out @ [QueueDone key], Panicked)
              | Some e \<Rightarrow> (effects out @ [Log (InfoV 4), QueueDone key], Returned True)
              | None \<Rightarrow> (effects out @ [QueueDone key], Returned True)))"

section \<open>The deletion recovery: handleNetAttachDefDeleteEvent\<close>







section \<open>The deletion recovery, in the words of the amended specification\<close>





fun isLog :: "effect \<Rightarrow> bool" where
  "isLog (Log s) = True"
| "isLog e = False"


fun isLiveRead :: "effect \<Rightarrow> bool" where
  "isLiveRead (NetAttachDefGet namespace name) = True"
| "isLiveRead e = False"

fun isEvent :: "effect \<Rightarrow> bool" where
  "isEvent (Event object eventtype reason message) = True"
| "isEvent e = False"



fun touchesEndpoints :: "effect \<Rightarrow> bool" where
  "touchesEndpoints (EndpointsGet namespace name) = True"
| "touchesEndpoints (EndpointsCacheWrite ep) = True"
| "touchesEndpoints (EndpointsUpdate ep) = True"
| "touchesEndpoints e = False"

section \<open>The repacking of the subsets\<close>

text \<open>
  Modelled from the spec: \<^verbatim>\<open>endpoints.RepackSubsets\<close> is a function of the Kubernetes
  library, called by \<^verbatim>\<open>sync\<close> and not part of the source of the controller. In the
  words of the specification, subsets sharing an identical port set are merged so their
  addresses are combined into one subset, and subsets with differing port sets remain
  distinct. Each subset is merged into the first earlier one with the same set of ports, or
  else put after them.
\<close>

fun mergeSubset :: "EndpointSubset \<Rightarrow> EndpointSubset list \<Rightarrow> EndpointSubset list" where
  "mergeSubset s [] = [s]"
| "mergeSubset s (t # ts) =
     (if set (ss_Ports t) = set (ss_Ports s)
      then t\<lparr>ss_Addresses := ss_Addresses t @ ss_Addresses s\<rparr> # ts
      else t # mergeSubset s ts)"

definition RepackSubsets :: "EndpointSubset list \<Rightarrow> EndpointSubset list" where
  "RepackSubsets subsets = foldl (\<lambda>packed s. mergeSubset s packed) [] subsets"

section \<open>A small cluster for the examples\<close>

text \<open>
  The service \<^verbatim>\<open>default/svc\<close> selects the network \<^verbatim>\<open>br0\<close>, the service
  \<^verbatim>\<open>default/svc2\<close> two networks; the pod \<^verbatim>\<open>web-1\<close> reports an
  attachment to it, the pod \<^verbatim>\<open>web-0\<close> has no status annotation. \<^verbatim>\<open>json.Unmarshal\<close> is
  given by its results on the texts that occur, \<^verbatim>\<open>FindPort\<close> by its result for a numeric
  target port.
\<close>

definition exampleStatusUnmarshal :: "string \<Rightarrow> NetworkStatus list \<times> error option" where
  \<open>exampleStatusUnmarshal text =
     (if text = ''[{"name":"br0","interface":"net1","ips":["10.0.0.5"]}]''
      then ([\<lparr>st_Name = ''br0'', st_Interface = ''net1'', st_IPs = [''10.0.0.5'']\<rparr>], None)
      else ([], Some JSONError))\<close>

definition exampleService :: Service where
  "exampleService =
     \<lparr>svc_meta = \<lparr>om_Name = ''svc'', om_Namespace = ''default'', om_ResourceVersion = ''7'',
                  om_UID = ''uid-svc'', om_Annotations = [selectionsKey \<mapsto> ''br0''],
                  om_OwnerReferences = []\<rparr>,
      svc_Selector = [''app'' \<mapsto> ''web''],
      svc_Ports = [\<lparr>sp_Name = ''http'', sp_Protocol = ''TCP'', sp_TargetPort = IntVal 8080\<rparr>]\<rparr>"

definition exampleService2 :: Service where
  "exampleService2 =
     \<lparr>svc_meta = \<lparr>om_Name = ''svc2'', om_Namespace = ''default'', om_ResourceVersion = ''8'',
                  om_UID = ''uid-svc2'', om_Annotations = [selectionsKey \<mapsto> ''br0, br1''],
                  om_OwnerReferences = []\<rparr>,
      svc_Selector = [''app'' \<mapsto> ''web''],
      svc_Ports = []\<rparr>"

definition examplePod0 :: Pod where
  "examplePod0 =
     \<lparr>pod_meta = \<lparr>om_Name = ''web-0'', om_Namespace = ''other'', om_ResourceVersion = ''3'',
                  om_UID = ''uid-0'', om_Annotations = [selectionsKey \<mapsto> ''default/br0''],
                  om_OwnerReferences = []\<rparr>,
      pod_NodeName = ''node-a''\<rparr>"

definition examplePod1 :: Pod where
  \<open>examplePod1 =
     \<lparr>pod_meta = \<lparr>om_Name = ''web-1'', om_Namespace = ''other'', om_ResourceVersion = ''4'',
                  om_UID = ''uid-1'',
                  om_Annotations = [selectionsKey \<mapsto> ''default/br0, default/br0'',
                    statusesKey \<mapsto> ''[{"name":"br0","interface":"net1","ips":["10.0.0.5"]}]''],
                  om_OwnerReferences = []\<rparr>,
      pod_NodeName = ''node-b''\<rparr>\<close>

definition examplePod2 :: Pod where
  \<open>examplePod2 =
     \<lparr>pod_meta = \<lparr>om_Name = ''db-0'', om_Namespace = ''other'', om_ResourceVersion = ''5'',
                  om_UID = ''uid-2'',
                  om_Annotations = [selectionsKey \<mapsto> ''br0'',
                    statusesKey \<mapsto> ''[{"name":"br0","interface":"net1","ips":["10.0.0.5"]}]''],
                  om_OwnerReferences = []\<rparr>,
      pod_NodeName = ''node-c''\<rparr>\<close>

definition exampleEndpoints :: Endpoints where
  "exampleEndpoints =
     \<lparr>eps_meta = \<lparr>om_Name = ''svc'', om_Namespace = ''default'', om_ResourceVersion = ''9'',
                  om_UID = ''uid-ep'', om_Annotations = Map.empty, om_OwnerReferences = []\<rparr>,
      eps_Subsets = []\<rparr>"

definition exampleNetAttachDef :: NetworkAttachmentDefinition where
  "exampleNetAttachDef =
     \<lparr>nad_meta = \<lparr>om_Name = ''br0'', om_Namespace = ''default'', om_ResourceVersion = ''12'',
                  om_UID = ''uid-nad'', om_Annotations = Map.empty, om_OwnerReferences = []\<rparr>,
      nad_Config = ''{}''\<rparr>"

definition exampleController :: NetworkController where
  "exampleController =
     \<lparr>serviceLister = (\<lambda>namespace name.
         if namespace = ''default'' \<and> name = ''svc'' then Inr exampleService
         else if namespace = ''default'' \<and> name = ''svc2'' then Inr exampleService2
         else Inl NotFound),
      podsLister = (\<lambda>selector. Inr [examplePod0, examplePod1]),
      podsListerEverything = [examplePod0, examplePod1],
      endpointsLister = (\<lambda>namespace name.
         if namespace = ''default'' \<and> name = ''svc'' then Inr exampleEndpoints else Inl NotFound),
      endpointsUpdate = (\<lambda>ep. None),
      netAttachDefGet = (\<lambda>k namespace name. None),
      netAttachDefCreate = (\<lambda>obj. None),
      unmarshalSelections = exampleUnmarshal,
      unmarshalStatus = exampleStatusUnmarshal,
      FindPort = (\<lambda>pod svcPort.
         case sp_TargetPort svcPort of IntVal n \<Rightarrow> Inr n | StrVal s \<Rightarrow> Inl NoSuitablePort),
      repackSubsets = RepackSubsets\<rparr>"

text \<open>
  The same cluster when the pods behind the service are the single pod \<^verbatim>\<open>other/db-0\<close>,
  which asks for the network \<^verbatim>\<open>br0\<close> of its own namespace, and the same cluster when
  the live API does not hold the NetworkAttachmentDefinition any more.
\<close>

definition exampleController2 :: NetworkController where
  "exampleController2 = exampleController\<lparr>podsLister := (\<lambda>selector. Inr [examplePod2])\<rparr>"

definition exampleController3 :: NetworkController where
  "exampleController3 =
     exampleController\<lparr>podsListerEverything := [examplePod2, examplePod0, examplePod1],
                       netAttachDefGet := (\<lambda>k namespace name. Some NotFound)\<rparr>"

section \<open>Properties of the string functions\<close>

lemma Split_not_Nil: "Split s c \<noteq> []"
  by (induction s) (auto split: list.splits)

lemma length_Split: "length (Split s c) = Suc (count_list s c)"
  by (induction s) (auto split: list.splits simp: Split_not_Nil)

lemma Split_single: "c \<notin> set s \<Longrightarrow> Split s c = [s]"
  by (induction s) auto

lemma Split_two:
  "count_list s c = 1 \<Longrightarrow>
   Split s c = [takeWhile (\<lambda>x. x \<noteq> c) s, tl (dropWhile (\<lambda>x. x \<noteq> c) s)]"
proof (induction s)
  case Nil
  then show ?case by simp
next
  case (Cons a s)
  show ?case
  proof (cases "a = c")
    case True
    with Cons.prems have "count_list s c = 0" by simp
    then have "c \<notin> set s" by (simp add: count_list_0_iff)
    with True show ?thesis by (simp add: Split_single)
  next
    case False
    with Cons show ?thesis by simp
  qed
qed

lemma Split_eq_single: "Split s c = [a] \<Longrightarrow> c \<notin> set s \<and> a = s"
proof -
  assume h: "Split s c = [a]"
  have "length (Split s c) = Suc (count_list s c)" by (rule length_Split)
  with h have "count_list s c = 0" by simp
  then have "c \<notin> set s" by (simp add: count_list_0_iff)
  with h show ?thesis by (simp add: Split_single)
qed

lemma Split_eq_two:
  "Split s c = [a, b] \<Longrightarrow>
   count_list s c = 1 \<and> a = takeWhile (\<lambda>x. x \<noteq> c) s \<and> b = tl (dropWhile (\<lambda>x. x \<noteq> c) s)"
proof -
  assume h: "Split s c = [a, b]"
  have "length (Split s c) = Suc (count_list s c)" by (rule length_Split)
  with h have "count_list s c = 1" by simp
  with h show ?thesis by (simp add: Split_two)
qed

lemma MatchString_chars: "MatchString s \<Longrightarrow> x \<in> set s \<Longrightarrow> isLowerAlnum x \<or> x = CHR ''-''"
  by (auto simp: MatchString_def list_all_iff)

lemma at_not_label: "\<not> isLowerAlnum CHR ''@''" "\<not> isLowerAlnum CHR ''/''"
  by (simp_all add: isLowerAlnum_def)


lemma switch_units:
  assumes "(case Split u c of [u0] \<Rightarrow> Inr (f u0) | [u0, u1] \<Rightarrow> Inr (u0, u1) | _ \<Rightarrow> Inl x) = Inr (a, b)"
  shows "(c \<notin> set u \<and> (a, b) = f u) \<or>
         (count_list u c = 1 \<and> a = takeWhile (\<lambda>y. y \<noteq> c) u \<and> b = tl (dropWhile (\<lambda>y. y \<noteq> c) u))"
  using assms by (auto split: list.splits dest: Split_eq_single Split_eq_two)

lemma count_one_mem: "count_list s c = 1 \<Longrightarrow> c \<in> set s"
  by (metis count_list_0_iff zero_neq_one)

lemma count_le_one_if_notin: "c \<notin> set s \<Longrightarrow> count_list s c \<le> 1"
  by (simp add: count_list_0_iff[THEN iffD2])

lemma label_no_at: "s = [] \<or> MatchString s \<Longrightarrow> count_list s CHR ''@'' = 0"
  by (auto simp: count_list_0_iff dest: MatchString_chars simp: at_not_label)

lemma count_tl_dropWhile:
  "c \<in> set s \<Longrightarrow> x \<noteq> c \<Longrightarrow>
   count_list s x = count_list (takeWhile (\<lambda>y. y \<noteq> c) s) x +
     count_list (tl (dropWhile (\<lambda>y. y \<noteq> c) s)) x"
  by (induction s) auto

lemma element_Inr:
  assumes "parsePodNetworkSelectionElement u d = Inr e"
  shows "count_list u CHR ''/'' \<le> 1 \<and> count_list u CHR ''@'' \<le> 1 \<and>
         unitComponents d u = [nse_Namespace e, nse_Name e, nse_InterfaceRequest e] \<and>
         \<not> list_ex (\<lambda>c. c \<noteq> [] \<and> \<not> MatchString c) (unitComponents d u)"
proof -
  let ?sw1 = "case Split u CHR ''/'' of [u0] \<Rightarrow> Inr (Pair d u0) | [u0, u1] \<Rightarrow> Inr (u0, u1)
              | _ \<Rightarrow> Inl (MoreThanOneSlash u)"
  from assms obtain namespace name0 where sw1: "?sw1 = Inr (namespace, name0)"
    by (cases ?sw1) auto
  let ?sw2 = "case Split name0 CHR ''@'' of [u0] \<Rightarrow> Inr ((\<lambda>v. (v, [])) u0) | [u0, u1] \<Rightarrow> Inr (u0, u1)
              | _ \<Rightarrow> Inl (MoreThanOneAt u)"
  from assms sw1 obtain name netInterface where sw2: "?sw2 = Inr (name, netInterface)"
    by (cases ?sw2) auto
  let ?bad = "filter (\<lambda>unit. \<not> MatchString unit \<and> length unit > 0) [namespace, name, netInterface]"
  from assms sw1 sw2 have
    "(case ?bad of [] \<Rightarrow> Inr \<lparr>nse_Name = name, nse_Namespace = namespace,
                                 nse_InterfaceRequest = netInterface\<rparr>
      | unit # _ \<Rightarrow> Inl (InvalidUnit unit)) = Inr e"
    by simp
  then have flt: "?bad = []"
    and e: "e = \<lparr>nse_Name = name, nse_Namespace = namespace, nse_InterfaceRequest = netInterface\<rparr>"
    by (cases ?bad; simp)+
  from flt have ok: "namespace = [] \<or> MatchString namespace" "name = [] \<or> MatchString name"
    "netInterface = [] \<or> MatchString netInterface"
    unfolding filter_empty_conv by auto
  from switch_units[OF sw1] have
    c1: "(CHR ''/'' \<notin> set u \<and> namespace = d \<and> name0 = u) \<or>
         (count_list u CHR ''/'' = 1 \<and> namespace = takeWhile (\<lambda>y. y \<noteq> CHR ''/'') u \<and>
          name0 = tl (dropWhile (\<lambda>y. y \<noteq> CHR ''/'') u))"
    by auto
  from switch_units[OF sw2] have
    c2: "(CHR ''@'' \<notin> set name0 \<and> name = name0 \<and> netInterface = []) \<or>
         (count_list name0 CHR ''@'' = 1 \<and> name = takeWhile (\<lambda>y. y \<noteq> CHR ''@'') name0 \<and>
          netInterface = tl (dropWhile (\<lambda>y. y \<noteq> CHR ''@'') name0))"
    by auto
  from c1 have slash: "count_list u CHR ''/'' \<le> 1"
    by (auto simp: count_list_0_iff[THEN iffD2])
  from c2 have at0: "count_list name0 CHR ''@'' \<le> 1"
    by (auto simp: count_list_0_iff[THEN iffD2])
  have at: "count_list u CHR ''@'' \<le> 1"
  proof (cases "CHR ''/'' \<in> set u")
    case False
    with c1 have "name0 = u" by (auto dest: count_one_mem)
    with at0 show ?thesis by simp
  next
    case True
    with c1 have ns: "namespace = takeWhile (\<lambda>y. y \<noteq> CHR ''/'') u"
      and n0: "name0 = tl (dropWhile (\<lambda>y. y \<noteq> CHR ''/'') u)" by auto
    have "count_list u CHR ''@'' = count_list namespace CHR ''@'' + count_list name0 CHR ''@''"
      unfolding ns n0 by (rule count_tl_dropWhile[OF True]) simp
    with label_no_at[OF ok(1)] at0 show ?thesis by simp
  qed
  have comps: "unitComponents d u = [namespace, name, netInterface]"
  proof (cases "CHR ''/'' \<in> set u")
    case False
    with c1 have "namespace = d" "name0 = u" by (auto dest: count_one_mem)
    with False c2 show ?thesis
      by (auto simp: unitComponents_def Let_def dest: count_one_mem)
  next
    case True
    with c1 have "namespace = takeWhile (\<lambda>y. y \<noteq> CHR ''/'') u"
      "name0 = tl (dropWhile (\<lambda>y. y \<noteq> CHR ''/'') u)" by auto
    with True c2 show ?thesis
      by (auto simp: unitComponents_def Let_def dest: count_one_mem)
  qed
  from ok have "\<not> list_ex (\<lambda>c. c \<noteq> [] \<and> \<not> MatchString c) [namespace, name, netInterface]"
    by auto
  with slash at comps e show ?thesis by simp
qed

lemma element_violation:
  "unitViolatesGrammar d u \<Longrightarrow> \<exists>err. parsePodNetworkSelectionElement u d = Inl err"
proof (cases "parsePodNetworkSelectionElement u d")
  case (Inl a)
  then show ?thesis by blast
next
  case (Inr e)
  assume v: "unitViolatesGrammar d u"
  from element_Inr[OF Inr] v show ?thesis
    unfolding unitViolatesGrammar_def by auto
qed

lemma parseCommaSeparated_Inr:
  "parseCommaSeparated us d acc = Inr r \<Longrightarrow> u \<in> set us \<Longrightarrow>
   \<exists>e. parsePodNetworkSelectionElement (TrimSpace u) d = Inr e"
  by (induction us arbitrary: acc) (auto split: sum.splits)


section \<open>Properties of the parser\<close>

text \<open>
  C5. On the comma-separated path (the JSON attempt has failed), a unit that after trimming
  holds more than one \<open>/\<close> or more than one \<open>@\<close>, or has a non-empty namespace, name or
  interface that does not match the label pattern, makes the whole call return an error:
  there is no list, not even a partial one.
\<close>

theorem comma_path_rejects_invalid_unit:
  assumes "snd (unmarshal podNetworks) \<noteq> None"
    and "networkSelection \<in> set (Split podNetworks CHR '','')"
    and "unitViolatesGrammar defaultNamespace (TrimSpace networkSelection)"
  shows "\<exists>err. parsePodNetworkSelections unmarshal podNetworks defaultNamespace = Inl err"
proof (cases "parsePodNetworkSelections unmarshal podNetworks defaultNamespace")
  case (Inl a)
  then show ?thesis by blast
next
  case (Inr r)
  with assms(1) obtain sel where
    "parseCommaSeparated (Split podNetworks CHR '','') defaultNamespace
       (fst (unmarshal podNetworks)) = Inr sel"
    by (auto simp: parsePodNetworkSelections_def parsedSelections_def
        split: if_splits sum.splits prod.splits option.splits)
  from parseCommaSeparated_Inr[OF this assms(2)] element_violation[OF assms(3)]
  show ?thesis by auto
qed

text \<open>The unit \<^verbatim>\<open>a/b/c\<close> of the specification's example: two \<open>/\<close>, hence an error.\<close>

theorem comma_path_rejects_invalid_unit_witness:
  "snd (exampleUnmarshal ''a/b/c'') \<noteq> None \<and>
   ''a/b/c'' \<in> set (Split ''a/b/c'' CHR '','') \<and>
   unitViolatesGrammar ''default'' (TrimSpace ''a/b/c'') \<and>
   parsePodNetworkSelections exampleUnmarshal ''a/b/c'' ''default'' =
     Inl (Wrapped (MoreThanOneSlash ''a/b/c''))"
proof -
  have h1: "snd (exampleUnmarshal ''a/b/c'') \<noteq> None"
    by (simp add: exampleUnmarshal_def)
  have h2: "''a/b/c'' \<in> set (Split ''a/b/c'' CHR '','')"
    by simp
  have h3: "unitViolatesGrammar ''default'' (TrimSpace ''a/b/c'')"
    by code_simp
  have h4: "parsePodNetworkSelections exampleUnmarshal ''a/b/c'' ''default'' =
      Inl (Wrapped (MoreThanOneSlash ''a/b/c''))"
    by code_simp
  from comma_path_rejects_invalid_unit
         [of exampleUnmarshal "''a/b/c''" "''a/b/c''" "''default''", OF h1 h2 h3] h1 h2 h3 h4
  show ?thesis by simp
qed

lemma fillNamespaces_Inr:
  "fillNamespaces d sel = Inr result \<Longrightarrow>
   \<exists>els. sel = map Some els \<and> result = map (fillNamespace d) els"
proof (induction sel arbitrary: result)
  case Nil
  then show ?case by simp
next
  case (Cons a sel)
  then obtain x where a: "a = Some x" by (cases a) auto
  with Cons.prems obtain filled where f: "fillNamespaces d sel = Inr filled"
    and r: "result = fillNamespace d x # filled"
    by (auto split: sum.splits)
  from Cons.IH[OF f] obtain els where "sel = map Some els" "filled = map (fillNamespace d) els"
    by blast
  with a r have "a # sel = map Some (x # els) \<and> result = map (fillNamespace d) (x # els)"
    by simp
  then show ?case by (intro exI[of _ "x # els"])
qed

lemma fillNamespaces_Some: "fillNamespaces d (map Some els) = Inr (map (fillNamespace d) els)"
  by (induction els) auto

lemma fillNamespace_nonempty: "d \<noteq> [] \<Longrightarrow> nse_Namespace (fillNamespace d e) \<noteq> []"
  by (simp add: fillNamespace_def)

text \<open>
  C3, as stated, fails: with an empty default namespace a unit without a namespace comes back
  with an empty \<open>Namespace\<close>.
\<close>

theorem empty_default_namespace_counterexample: "parsePodNetworkSelections exampleUnmarshal ''br0'' [] =
   Inr [\<lparr>nse_Name = ''br0'', nse_Namespace = [], nse_InterfaceRequest = []\<rparr>]"
  by code_simp

text \<open>
  C3, amended. When the call returns without error and the default namespace is not empty,
  every returned element has a non-empty \<open>Namespace\<close>. The returned list is the parsed
  list (the JSON one, or the comma-separated one), element by element: an element parsed
  with an empty \<open>Namespace\<close> has the default namespace and is otherwise unchanged, an
  element parsed with a non-empty \<open>Namespace\<close> is unchanged.
\<close>

theorem namespaces_filled:
  assumes "parsePodNetworkSelections unmarshal podNetworks defaultNamespace = Inr result"
    and "defaultNamespace \<noteq> []"
  shows "list_all (\<lambda>e. nse_Namespace e \<noteq> []) result \<and>
         (\<exists>sel. parsedSelections unmarshal podNetworks defaultNamespace = Inr (map Some sel) \<and>
            list_all2 (\<lambda>p r. (nse_Namespace p = [] \<longrightarrow> r = p\<lparr>nse_Namespace := defaultNamespace\<rparr>) \<and>
                              (nse_Namespace p \<noteq> [] \<longrightarrow> r = p)) sel result)"
proof -
  from assms(1) obtain ps where ps: "parsedSelections unmarshal podNetworks defaultNamespace = Inr ps"
    and fl: "fillNamespaces defaultNamespace ps = Inr result"
    by (auto simp: parsePodNetworkSelections_def split: if_splits sum.splits)
  from fillNamespaces_Inr[OF fl] obtain sel where sel: "ps = map Some sel"
    and res: "result = map (fillNamespace defaultNamespace) sel" by blast
  from res assms(2) have a: "list_all (\<lambda>e. nse_Namespace e \<noteq> []) result"
    by (simp add: list_all_iff fillNamespace_nonempty)
  have b: "list_all2 (\<lambda>p r. (nse_Namespace p = [] \<longrightarrow> r = p\<lparr>nse_Namespace := defaultNamespace\<rparr>) \<and>
                              (nse_Namespace p \<noteq> [] \<longrightarrow> r = p)) sel result"
    unfolding res by (simp add: list_all2_map2 list_all2_same fillNamespace_def)
  from a b ps sel show ?thesis by blast
qed

theorem namespaces_filled_witness: "parsePodNetworkSelections exampleUnmarshal ''/br0, foo/bar@eth1'' ''default'' =
     Inr [\<lparr>nse_Name = ''br0'', nse_Namespace = ''default'', nse_InterfaceRequest = []\<rparr>,
          \<lparr>nse_Name = ''bar'', nse_Namespace = ''foo'', nse_InterfaceRequest = ''eth1''\<rparr>] \<and>
   ''default'' \<noteq> [] \<and>
   list_all (\<lambda>e. nse_Namespace e \<noteq> [])
     [\<lparr>nse_Name = ''br0'', nse_Namespace = ''default'', nse_InterfaceRequest = []\<rparr>,
      \<lparr>nse_Name = ''bar'', nse_Namespace = ''foo'', nse_InterfaceRequest = ''eth1''\<rparr>]"
proof -
  have h1: "parsePodNetworkSelections exampleUnmarshal ''/br0, foo/bar@eth1'' ''default'' =
     Inr [\<lparr>nse_Name = ''br0'', nse_Namespace = ''default'', nse_InterfaceRequest = []\<rparr>,
          \<lparr>nse_Name = ''bar'', nse_Namespace = ''foo'', nse_InterfaceRequest = ''eth1''\<rparr>]"
    by code_simp
  have h2: "''default'' \<noteq> []" by simp
  from namespaces_filled[OF h1 h2] h1 h2 show ?thesis by blast
qed

lemma takeWhile_sep: "c \<notin> set a \<Longrightarrow> takeWhile (\<lambda>x. x \<noteq> c) (a @ c # b) = a"
  by (induction a) auto

lemma dropWhile_sep: "c \<notin> set a \<Longrightarrow> dropWhile (\<lambda>x. x \<noteq> c) (a @ c # b) = c # b"
  by (induction a) auto

lemma rendered_components:
  assumes "CHR ''/'' \<notin> set ns" "CHR ''/'' \<notin> set n" "CHR ''/'' \<notin> set i"
    "CHR ''@'' \<notin> set n"
  shows "unitComponents d (ns @ ''/'' @ n @ ''@'' @ i) = [ns, n, i]"
proof -
  let ?rest = "n @ CHR ''@'' # i"
  have a: "takeWhile (\<lambda>c. c \<noteq> CHR ''/'') (ns @ CHR ''/'' # ?rest) = ns"
    using assms(1) by (rule takeWhile_sep)
  have b: "tl (dropWhile (\<lambda>c. c \<noteq> CHR ''/'') (ns @ CHR ''/'' # ?rest)) = ?rest"
    using assms(1) by (simp add: dropWhile_sep)
  have c: "takeWhile (\<lambda>c. c \<noteq> CHR ''@'') ?rest = n"
    using assms(4) by (rule takeWhile_sep)
  have d: "tl (dropWhile (\<lambda>c. c \<noteq> CHR ''@'') ?rest) = i"
    using assms(4) by (simp add: dropWhile_sep)
  show ?thesis
    unfolding unitComponents_def Let_def by (simp add: a b c d)
qed

text \<open>
  C9. When the annotation decodes as a JSON array, the call returns the decoded elements with
  only the namespace filled in, whatever their fields hold; the element below has a
  non-empty field that does not match the label pattern. The same three strings written as
  a comma-separated unit, \<^verbatim>\<open>namespace/name@interface\<close>, are refused by the unit parser.
\<close>

theorem json_path_skips_validation:
  assumes "unmarshal podNetworks = (map Some sel, None)"
    and "podNetworks \<noteq> []"
    and "e \<in> set sel"
    and "list_ex (\<lambda>c. c \<noteq> [] \<and> \<not> MatchString c)
           [nse_Namespace e, nse_Name e, nse_InterfaceRequest e]"
  shows "parsePodNetworkSelections unmarshal podNetworks defaultNamespace =
           Inr (map (fillNamespace defaultNamespace) sel) \<and>
         (\<exists>err. parsePodNetworkSelectionElement
                  (nse_Namespace e @ ''/'' @ nse_Name e @ ''@'' @ nse_InterfaceRequest e)
                  defaultNamespace = Inl err)"
proof -
  let ?u = "nse_Namespace e @ ''/'' @ nse_Name e @ ''@'' @ nse_InterfaceRequest e"
  from assms(1,2) have a: "parsePodNetworkSelections unmarshal podNetworks defaultNamespace =
           Inr (map (fillNamespace defaultNamespace) sel)"
    by (simp add: parsePodNetworkSelections_def parsedSelections_def fillNamespaces_Some)
  have b: "\<exists>err. parsePodNetworkSelectionElement ?u defaultNamespace = Inl err"
  proof (cases "parsePodNetworkSelectionElement ?u defaultNamespace")
    case (Inl a)
    then show ?thesis by blast
  next
    case (Inr r)
    from element_Inr[OF Inr] have s: "count_list ?u CHR ''/'' \<le> 1"
      and t: "count_list ?u CHR ''@'' \<le> 1"
      and g: "\<not> list_ex (\<lambda>c. c \<noteq> [] \<and> \<not> MatchString c) (unitComponents defaultNamespace ?u)"
      by auto
    from s have "count_list (nse_Namespace e) CHR ''/'' = 0" "count_list (nse_Name e) CHR ''/'' = 0"
      "count_list (nse_InterfaceRequest e) CHR ''/'' = 0" by simp_all
    moreover from t have "count_list (nse_Name e) CHR ''@'' = 0" by simp
    ultimately have "unitComponents defaultNamespace ?u =
        [nse_Namespace e, nse_Name e, nse_InterfaceRequest e]"
      by (intro rendered_components) (simp_all add: count_list_0_iff)
    with g assms(4) show ?thesis by simp
  qed
  from a b show ?thesis by blast
qed

text \<open>
  The name \<^verbatim>\<open>BR0\<close> is returned from the JSON path and is an error on the comma-separated
  path.
\<close>

theorem json_path_skips_validation_witness: \<open>exampleUnmarshal ''[{"name":"BR0"}]'' =
      (map Some [\<lparr>nse_Name = ''BR0'', nse_Namespace = [], nse_InterfaceRequest = []\<rparr>], None) \<and>
   parsePodNetworkSelections exampleUnmarshal ''[{"name":"BR0"}]'' ''x'' =
      Inr [\<lparr>nse_Name = ''BR0'', nse_Namespace = ''x'', nse_InterfaceRequest = []\<rparr>] \<and>
   parsePodNetworkSelections exampleUnmarshal ''BR0'' ''x'' = Inl (Wrapped (InvalidUnit ''BR0''))\<close>
proof -
  let ?e = "\<lparr>nse_Name = ''BR0'', nse_Namespace = [], nse_InterfaceRequest = []\<rparr>"
  have h1: \<open>exampleUnmarshal ''[{"name":"BR0"}]'' = (map Some [?e], None)\<close>
    by (simp add: exampleUnmarshal_def)
  have h2: \<open>''[{"name":"BR0"}]'' \<noteq> []\<close> by simp
  have h3: "?e \<in> set [?e]" by simp
  have h4: "list_ex (\<lambda>c. c \<noteq> [] \<and> \<not> MatchString c)
           [nse_Namespace ?e, nse_Name ?e, nse_InterfaceRequest ?e]"
    by code_simp
  have h5: "parsePodNetworkSelections exampleUnmarshal ''BR0'' ''x'' = Inl (Wrapped (InvalidUnit ''BR0''))"
    by code_simp
  from json_path_skips_validation[of exampleUnmarshal _ "[?e]" ?e "''x''", OF h1 h2 h3 h4] h1 h5 show ?thesis
    by (simp add: fillNamespace_def)
qed


section \<open>Properties of the repacking\<close>

lemma mergeSubset_fresh:
  "set (ss_Ports s) \<notin> (\<lambda>t. set (ss_Ports t)) ` set ts \<Longrightarrow> mergeSubset s ts = ts @ [s]"
  by (induction ts) auto

lemma mergeSubset_ports:
  "(\<lambda>t. set (ss_Ports t)) ` set (mergeSubset s ts) =
   insert (set (ss_Ports s)) ((\<lambda>t. set (ss_Ports t)) ` set ts)"
  by (induction ts) auto

lemma mergeSubset_map_ports:
  "map (\<lambda>t. set (ss_Ports t)) (mergeSubset s ts) =
   (if set (ss_Ports s) \<in> (\<lambda>t. set (ss_Ports t)) ` set ts
    then map (\<lambda>t. set (ss_Ports t)) ts
    else map (\<lambda>t. set (ss_Ports t)) ts @ [set (ss_Ports s)])"
  by (induction ts) auto

lemma mergeSubset_distinct:
  "distinct (map (\<lambda>t. set (ss_Ports t)) ts) \<Longrightarrow>
   distinct (map (\<lambda>t. set (ss_Ports t)) (mergeSubset s ts))"
  by (simp add: mergeSubset_map_ports)

lemma foldl_merge_distinct:
  "distinct (map (\<lambda>t. set (ss_Ports t)) acc) \<Longrightarrow>
   distinct (map (\<lambda>t. set (ss_Ports t)) (foldl (\<lambda>packed s. mergeSubset s packed) acc xs))"
  by (induction xs arbitrary: acc) (simp_all add: mergeSubset_distinct)

lemma foldl_merge_fixed:
  "distinct (map (\<lambda>t. set (ss_Ports t)) (acc @ xs)) \<Longrightarrow>
   foldl (\<lambda>packed s. mergeSubset s packed) acc xs = acc @ xs"
proof (induction xs arbitrary: acc)
  case Nil
  then show ?case by simp
next
  case (Cons x xs)
  from Cons.prems have "set (ss_Ports x) \<notin> (\<lambda>t. set (ss_Ports t)) ` set acc" by auto
  then have m: "mergeSubset x acc = acc @ [x]" by (rule mergeSubset_fresh)
  from Cons.prems have "distinct (map (\<lambda>t. set (ss_Ports t)) ((acc @ [x]) @ xs))" by simp
  from Cons.IH[OF this] m show ?case by simp
qed

text \<open>
  C6. Repacking is idempotent: repacking a repacked list of subsets gives that list again.
  (\<open>RepackSubsets\<close> is the model of the library function drawn from the specification.)
\<close>

theorem repack_idempotent: "RepackSubsets (RepackSubsets subsets) = RepackSubsets subsets"
proof -
  have "distinct (map (\<lambda>t. set (ss_Ports t)) (RepackSubsets subsets))"
    unfolding RepackSubsets_def by (rule foldl_merge_distinct) simp
  then have "distinct (map (\<lambda>t. set (ss_Ports t)) ([] @ RepackSubsets subsets))" by simp
  from foldl_merge_fixed[OF this] show ?thesis by (simp add: RepackSubsets_def)
qed

section \<open>Properties of the reconciler\<close>

lemmas ex_defs = exampleController_def exampleController2_def exampleController3_def
  exampleService_def exampleService2_def examplePod0_def examplePod1_def examplePod2_def
  exampleEndpoints_def exampleNetAttachDef_def exampleUnmarshal_def exampleStatusUnmarshal_def
  selectionsKey_def statusesKey_def

lemma isIn_iff: "isInNetworkSelectionElementsArray name networks \<longleftrightarrow> name \<in> set (map nse_Name networks)"
  by (induction networks) auto

lemma podAddresses_names:
  "map nse_Name networks' = map nse_Name networks \<Longrightarrow>
   podAddresses pod networks' networksStatus = podAddresses pod networks networksStatus"
  by (induction networksStatus) (auto simp: isIn_iff)

lemma podAddresses_logs: "list_all isLog (fst (podAddresses pod networks sts))"
  by (induction sts) (auto split: prod.splits)

lemma podPorts_logs: "list_all isLog (fst (podPorts c pod ps))"
  by (induction ps) (auto split: prod.splits sum.splits)

lemma podSubset_logs: "list_all isLog (fst (podSubset c svc networks pod))"
  by (cases "unmarshalStatus c (statusAnnotation pod)")
     (auto simp: podSubset_def split_beta podAddresses_logs podPorts_logs split: option.splits)

lemma buildSubsets_logs: "list_all isLog (fst (buildSubsets c svc networks pods))"
  by (induction pods) (auto simp: split_beta podSubset_logs)


lemma logs_no_updates: "list_all isLog es \<Longrightarrow> filter (\<lambda>e. \<not> isLog e) es = []"
  by (induction es) auto

lemma podAddresses_exact:
  "snd (podAddresses pod networks sts) =
   concat (map (statusAddresses pod)
     (filter (\<lambda>st. st_Name st \<in> set (map nse_Name networks)) sts))"
  by (induction sts) (auto simp: isIn_iff split: prod.splits)

lemma buildSubsets_snd:
  "snd (buildSubsets c svc networks pods) =
   concat (map (\<lambda>pod. snd (podSubset c svc networks pod)) pods)"
  by (induction pods) (auto simp: split_beta)

lemma buildSubsets_fst:
  "fst (buildSubsets c svc networks pods) =
   concat (map (\<lambda>pod. fst (podSubset c svc networks pod)) pods)"
  by (induction pods) (auto simp: split_beta)

lemma sync_update_path:
  assumes "SplitMetaNamespaceKey key = Inr (namespace, name)"
    and "serviceLister c namespace name = Inr svc"
    and "parsePodNetworkSelections (unmarshalSelections c)
           (getNetworkAnnotations (svc_meta svc)) namespace = Inr networks"
    and "length networks \<le> 1"
    and "podsLister c (svc_Selector svc) = Inr pods"
    and "endpointsLister c namespace name = Inr ep"
    and "ep' = ep\<lparr>eps_meta := (eps_meta ep)\<lparr>om_OwnerReferences := [NewControllerRef svc]\<rparr>,
                   eps_Subsets := repackSubsets c (snd (buildSubsets c svc networks pods))\<rparr>"
  shows "sync c key =
     \<lparr>effects =
        [ServiceGet namespace name, Log (InfoV 3), PodsList (svc_Selector svc),
         EndpointsGet namespace name] @ fst (buildSubsets c svc networks pods) @
        [EndpointsCacheWrite ep', EndpointsUpdate ep'] @
        (case endpointsUpdate c ep' of
           Some e \<Rightarrow> [Log Error]
         | None \<Rightarrow>
             [Log Info,
              Event (EndpointsObject (om_Namespace (eps_meta ep)) (om_Name (eps_meta ep)))
                EventTypeNormal (''Updated to use network '' @ getNetworkAnnotations (svc_meta svc))
                ''Endpoints update successful'',
              Event (ServiceObject (om_Namespace (svc_meta svc)) (om_Name (svc_meta svc)))
                EventTypeNormal (''Updated to use network '' @ getNetworkAnnotations (svc_meta svc))
                ''Endpoints update successful'']),
      err = endpointsUpdate c ep'\<rparr>"
proof -
  from assms(3) have ne: "getNetworkAnnotations (svc_meta svc) \<noteq> []"
    by (auto simp: parsePodNetworkSelections_def)
  from assms(4) have le: "\<not> Suc 0 < length networks" by simp
  show ?thesis
    unfolding sync_def assms(7)
    by (simp add: assms(1,2,3,5,6) ne le Let_def split: prod.splits option.splits)
qed

lemma parse_br0: "parsePodNetworkSelections exampleUnmarshal ''br0'' ''default'' =
  Inr [\<lparr>nse_Name = ''br0'', nse_Namespace = ''default'', nse_InterfaceRequest = []\<rparr>]"
  by code_simp

lemma parse_br0_other: "parsePodNetworkSelections exampleUnmarshal ''br0'' ''other'' =
  Inr [\<lparr>nse_Name = ''br0'', nse_Namespace = ''other'', nse_InterfaceRequest = []\<rparr>]"
  by code_simp

lemma sync_example:
  "sync exampleController ''default/svc'' =
     (let ep' = \<lparr>eps_meta = \<lparr>om_Name = ''svc'', om_Namespace = ''default'',
                    om_ResourceVersion = ''9'', om_UID = ''uid-ep'', om_Annotations = Map.empty,
                    om_OwnerReferences =
                      [\<lparr>or_APIVersion = ''v1'', or_Kind = ''Service'', or_Name = ''svc'',
                        or_UID = ''uid-svc'', or_Controller = True,
                        or_BlockOwnerDeletion = True\<rparr>]\<rparr>,
                  eps_Subsets =
                    [\<lparr>ss_Addresses =
                        [\<lparr>ea_IP = ''10.0.0.5'', ea_NodeName = ''node-b'',
                          ea_TargetRef = \<lparr>ref_Kind = ''Pod'', ref_Name = ''web-1'',
                             ref_Namespace = ''other'', ref_ResourceVersion = ''4'',
                             ref_UID = ''uid-1''\<rparr>\<rparr>],
                      ss_Ports = [\<lparr>ep_Name = ''http'', ep_Port = 8080, ep_Protocol = ''TCP''\<rparr>]\<rparr>]\<rparr>
      in \<lparr>effects =
            [ServiceGet ''default'' ''svc'', Log (InfoV 3), PodsList [''app'' \<mapsto> ''web''],
             EndpointsGet ''default'' ''svc'', Log Warning, Log (InfoV 3),
             EndpointsCacheWrite ep', EndpointsUpdate ep', Log Info,
             Event (EndpointsObject ''default'' ''svc'') EventTypeNormal
               ''Updated to use network br0'' ''Endpoints update successful'',
             Event (ServiceObject ''default'' ''svc'') EventTypeNormal
               ''Updated to use network br0'' ''Endpoints update successful''],
          err = None\<rparr>)"
  by (simp add: Let_def sync_def ex_defs SplitMetaNamespaceKey_def getNetworkAnnotations_def parse_br0
     podSubset_def statusAnnotation_def statusAddresses_def NewControllerRef_def RepackSubsets_def)

lemma sync_example2:
  "sync exampleController2 ''default/svc'' =
     (let ep' = \<lparr>eps_meta = \<lparr>om_Name = ''svc'', om_Namespace = ''default'',
                    om_ResourceVersion = ''9'', om_UID = ''uid-ep'', om_Annotations = Map.empty,
                    om_OwnerReferences =
                      [\<lparr>or_APIVersion = ''v1'', or_Kind = ''Service'', or_Name = ''svc'',
                        or_UID = ''uid-svc'', or_Controller = True,
                        or_BlockOwnerDeletion = True\<rparr>]\<rparr>,
                  eps_Subsets =
                    [\<lparr>ss_Addresses =
                        [\<lparr>ea_IP = ''10.0.0.5'', ea_NodeName = ''node-c'',
                          ea_TargetRef = \<lparr>ref_Kind = ''Pod'', ref_Name = ''db-0'',
                             ref_Namespace = ''other'', ref_ResourceVersion = ''5'',
                             ref_UID = ''uid-2''\<rparr>\<rparr>],
                      ss_Ports = [\<lparr>ep_Name = ''http'', ep_Port = 8080, ep_Protocol = ''TCP''\<rparr>]\<rparr>]\<rparr>
      in \<lparr>effects =
            [ServiceGet ''default'' ''svc'', Log (InfoV 3), PodsList [''app'' \<mapsto> ''web''],
             EndpointsGet ''default'' ''svc'', Log (InfoV 3),
             EndpointsCacheWrite ep', EndpointsUpdate ep', Log Info,
             Event (EndpointsObject ''default'' ''svc'') EventTypeNormal
               ''Updated to use network br0'' ''Endpoints update successful'',
             Event (ServiceObject ''default'' ''svc'') EventTypeNormal
               ''Updated to use network br0'' ''Endpoints update successful''],
          err = None\<rparr>)"
  by (simp add: Let_def sync_def ex_defs SplitMetaNamespaceKey_def getNetworkAnnotations_def parse_br0
     podSubset_def statusAnnotation_def statusAddresses_def NewControllerRef_def RepackSubsets_def)

text \<open>
  C10. The match between a status entry of a pod and the selection of the service reads
  names only. Take a sync that reaches the update, with one selected network, and a pod
  behind the service that asked for a network of the same name in another namespace and
  reports a status entry of that name. Then the Endpoints object that \<open>sync\<close> sends to the
  API is the repacking of a list of subsets that holds the subset of this pod, and the
  addresses of that subset are exactly the addresses of the status entries named like the
  selected network, one for each IP; among them are those of the entry in question. The
  subsets are the same for any selection with the same name, whatever its namespace.
\<close>

theorem matching_ignores_namespace:
  assumes key: "SplitMetaNamespaceKey key = Inr (namespace, name)"
    and svc: "serviceLister c namespace name = Inr svc"
    and sel: "parsePodNetworkSelections (unmarshalSelections c)
                (getNetworkAnnotations (svc_meta svc)) namespace = Inr [network]"
    and pods: "podsLister c (svc_Selector svc) = Inr pods"
    and ep: "endpointsLister c namespace name = Inr ep"
    and pod: "pod \<in> set pods"
    and podsel: "parsePodNetworkSelections (unmarshalSelections c)
                   (getNetworkAnnotations (pod_meta pod)) (om_Namespace (pod_meta pod)) =
                 Inr podNetworks"
    and podnet: "podNetwork \<in> set podNetworks"
    and same: "nse_Name podNetwork = nse_Name network"
    and other: "nse_Namespace podNetwork \<noteq> nse_Namespace network"
    and st: "unmarshalStatus c (statusAnnotation pod) = (networksStatus, None)"
    and status: "status \<in> set networksStatus"
    and stname: "st_Name status = nse_Name podNetwork"
  shows "(\<exists>ep' subset.
            EndpointsUpdate ep' \<in> set (effects (sync c key)) \<and>
            eps_Subsets ep' = repackSubsets c (snd (buildSubsets c svc [network] pods)) \<and>
            subset \<in> set (snd (buildSubsets c svc [network] pods)) \<and>
            ss_Addresses subset =
              concat (map (statusAddresses pod)
                (filter (\<lambda>st. st_Name st = nse_Name network) networksStatus)) \<and>
            set (statusAddresses pod status) \<subseteq> set (ss_Addresses subset)) \<and>
         map ea_IP (statusAddresses pod status) = st_IPs status \<and>
         (\<forall>networks'. map nse_Name networks' = [nse_Name network] \<longrightarrow>
            buildSubsets c svc networks' pods = buildSubsets c svc [network] pods)"
proof (intro conjI allI impI)
  let ?subsets = "snd (buildSubsets c svc [network] pods)"
  let ?ep' = "ep\<lparr>eps_meta := (eps_meta ep)\<lparr>om_OwnerReferences := [NewControllerRef svc]\<rparr>,
                   eps_Subsets := repackSubsets c ?subsets\<rparr>"
  let ?subset = "\<lparr>ss_Addresses = snd (podAddresses pod [network] networksStatus),
                   ss_Ports = snd (podPorts c pod (svc_Ports svc))\<rparr>"
  have len: "length [network] \<le> 1" by simp
  have u: "EndpointsUpdate ?ep' \<in> set (effects (sync c key))"
    unfolding sync_update_path[OF key svc sel len pods ep refl] by simp
  have "snd (podSubset c svc [network] pod) = [?subset]"
    using st by (simp add: podSubset_def split_beta)
  with pod have m: "?subset \<in> set ?subsets"
    unfolding buildSubsets_snd by force
  have a: "ss_Addresses ?subset =
      concat (map (statusAddresses pod)
        (filter (\<lambda>st. st_Name st = nse_Name network) networksStatus))"
    by (simp add: podAddresses_exact)
  from status stname same
  have "status \<in> set (filter (\<lambda>st. st_Name st = nse_Name network) networksStatus)"
    by simp
  then have s: "set (statusAddresses pod status) \<subseteq> set (ss_Addresses ?subset)"
    unfolding a by auto
  from u m a s show "\<exists>ep' subset.
            EndpointsUpdate ep' \<in> set (effects (sync c key)) \<and>
            eps_Subsets ep' = repackSubsets c (snd (buildSubsets c svc [network] pods)) \<and>
            subset \<in> set (snd (buildSubsets c svc [network] pods)) \<and>
            ss_Addresses subset =
              concat (map (statusAddresses pod)
                (filter (\<lambda>st. st_Name st = nse_Name network) networksStatus)) \<and>
            set (statusAddresses pod status) \<subseteq> set (ss_Addresses subset)"
    by (intro exI[of _ ?ep'] exI[of _ ?subset]) simp
  show "map ea_IP (statusAddresses pod status) = st_IPs status"
    by (simp add: statusAddresses_def comp_def)
  show "buildSubsets c svc networks' pods = buildSubsets c svc [network] pods"
    if h: "map nse_Name networks' = [nse_Name network]" for networks'
  proof -
    from h have "map nse_Name networks' = map nse_Name [network]" by simp
    from podAddresses_names[OF this]
    have "podSubset c svc networks' p = podSubset c svc [network] p" for p
      unfolding podSubset_def by simp
    then show ?thesis
      by (induction pods) simp_all
  qed
qed

text \<open>
  The pod \<^verbatim>\<open>other/db-0\<close> asks for \<^verbatim>\<open>br0\<close>, that is \<^verbatim>\<open>other/br0\<close>, and reports it;
  the service selects \<^verbatim>\<open>default/br0\<close>; the IP of the pod is in the Endpoints object sent
  to the API.
\<close>

theorem matching_ignores_namespace_witness:
  "parsePodNetworkSelections (unmarshalSelections exampleController2)
     (getNetworkAnnotations (svc_meta exampleService)) ''default'' =
     Inr [\<lparr>nse_Name = ''br0'', nse_Namespace = ''default'', nse_InterfaceRequest = []\<rparr>] \<and>
   parsePodNetworkSelections (unmarshalSelections exampleController2)
     (getNetworkAnnotations (pod_meta examplePod2)) (om_Namespace (pod_meta examplePod2)) =
     Inr [\<lparr>nse_Name = ''br0'', nse_Namespace = ''other'', nse_InterfaceRequest = []\<rparr>] \<and>
   unmarshalStatus exampleController2 (statusAnnotation examplePod2) =
     ([\<lparr>st_Name = ''br0'', st_Interface = ''net1'', st_IPs = [''10.0.0.5'']\<rparr>], None) \<and>
   EndpointsUpdate
     \<lparr>eps_meta = \<lparr>om_Name = ''svc'', om_Namespace = ''default'',
                  om_ResourceVersion = ''9'', om_UID = ''uid-ep'', om_Annotations = Map.empty,
                  om_OwnerReferences =
                    [\<lparr>or_APIVersion = ''v1'', or_Kind = ''Service'', or_Name = ''svc'',
                      or_UID = ''uid-svc'', or_Controller = True,
                      or_BlockOwnerDeletion = True\<rparr>]\<rparr>,
      eps_Subsets =
        [\<lparr>ss_Addresses =
            [\<lparr>ea_IP = ''10.0.0.5'', ea_NodeName = ''node-c'',
              ea_TargetRef = \<lparr>ref_Kind = ''Pod'', ref_Name = ''db-0'',
                 ref_Namespace = ''other'', ref_ResourceVersion = ''5'',
                 ref_UID = ''uid-2''\<rparr>\<rparr>],
          ss_Ports = [\<lparr>ep_Name = ''http'', ep_Port = 8080, ep_Protocol = ''TCP''\<rparr>]\<rparr>]\<rparr>
     \<in> set (effects (sync exampleController2 ''default/svc''))"
proof -
  let ?network = "\<lparr>nse_Name = ''br0'', nse_Namespace = ''default'', nse_InterfaceRequest = []\<rparr>"
  let ?podNetwork = "\<lparr>nse_Name = ''br0'', nse_Namespace = ''other'', nse_InterfaceRequest = []\<rparr>"
  let ?status = "\<lparr>st_Name = ''br0'', st_Interface = ''net1'', st_IPs = [''10.0.0.5'']\<rparr>"
  have key: "SplitMetaNamespaceKey ''default/svc'' = Inr (''default'', ''svc'')"
    by (simp add: SplitMetaNamespaceKey_def)
  have svc: "serviceLister exampleController2 ''default'' ''svc'' = Inr exampleService"
    by (simp add: exampleController2_def exampleController_def)
  have sel: "parsePodNetworkSelections (unmarshalSelections exampleController2)
     (getNetworkAnnotations (svc_meta exampleService)) ''default'' = Inr [?network]"
    by (simp add: exampleController2_def exampleController_def exampleService_def
        getNetworkAnnotations_def parse_br0)
  have pods: "podsLister exampleController2 (svc_Selector exampleService) = Inr [examplePod2]"
    by (simp add: exampleController2_def)
  have ep: "endpointsLister exampleController2 ''default'' ''svc'' = Inr exampleEndpoints"
    by (simp add: exampleController2_def exampleController_def)
  have pod: "examplePod2 \<in> set [examplePod2]" by simp
  have podsel: "parsePodNetworkSelections (unmarshalSelections exampleController2)
     (getNetworkAnnotations (pod_meta examplePod2)) (om_Namespace (pod_meta examplePod2)) =
     Inr [?podNetwork]"
    by (simp add: ex_defs getNetworkAnnotations_def parse_br0_other)
  have podnet: "?podNetwork \<in> set [?podNetwork]" by simp
  have same: "nse_Name ?podNetwork = nse_Name ?network" by simp
  have other: "nse_Namespace ?podNetwork \<noteq> nse_Namespace ?network" by simp
  have st: "unmarshalStatus exampleController2 (statusAnnotation examplePod2) = ([?status], None)"
    by (simp add: ex_defs statusAnnotation_def)
  have status: "?status \<in> set [?status]" by simp
  have stname: "st_Name ?status = nse_Name ?podNetwork" by simp
  note t = matching_ignores_namespace[OF key svc sel pods ep pod podsel podnet same other
      st status stname]
  from conjunct1[OF t] sel podsel st show ?thesis
    by (simp add: sync_example2 Let_def)
qed

text \<open>
  C1. When the selection of the service parses to more than one element, \<open>sync\<close> reads the
  Service, logs, hands one Warning event on the Service to the recorder and returns an
  error. It neither reads nor writes the Endpoints object.
\<close>

theorem multiple_selections_abort:
  assumes "SplitMetaNamespaceKey key = Inr (namespace, name)"
    and "serviceLister c namespace name = Inr svc"
    and "parsePodNetworkSelections (unmarshalSelections c)
           (getNetworkAnnotations (svc_meta svc)) namespace = Inr networks"
    and "length networks > 1"
  shows "sync c key =
           \<lparr>effects = [ServiceGet namespace name, Log (InfoV 3), Log Warning,
                       Event (ServiceObject (om_Namespace (svc_meta svc)) (om_Name (svc_meta svc)))
                         EventTypeWarning multipleSelectionsMsg ''Endpoints update aborted''],
            err = Some MultipleNetworkSelections\<rparr> \<and>
         filter touchesEndpoints (effects (sync c key)) = [] \<and>
         length (filter isEvent (effects (sync c key))) = 1 \<and>
         err (sync c key) \<noteq> None"
proof -
  from assms(3) have ne: "getNetworkAnnotations (svc_meta svc) \<noteq> []"
    by (auto simp: parsePodNetworkSelections_def)
  with assms have "sync c key =
           \<lparr>effects = [ServiceGet namespace name, Log (InfoV 3), Log Warning,
                       Event (ServiceObject (om_Namespace (svc_meta svc)) (om_Name (svc_meta svc)))
                         EventTypeWarning multipleSelectionsMsg ''Endpoints update aborted''],
            err = Some MultipleNetworkSelections\<rparr>"
    by (simp add: sync_def Let_def)
  then show ?thesis by simp
qed


theorem multiple_selections_abort_witness:
  "SplitMetaNamespaceKey ''default/svc2'' = Inr (''default'', ''svc2'') \<and>
   serviceLister exampleController ''default'' ''svc2'' = Inr exampleService2 \<and>
   parsePodNetworkSelections (unmarshalSelections exampleController)
     (getNetworkAnnotations (svc_meta exampleService2)) ''default'' =
     Inr [\<lparr>nse_Name = ''br0'', nse_Namespace = ''default'', nse_InterfaceRequest = []\<rparr>,
          \<lparr>nse_Name = ''br1'', nse_Namespace = ''default'', nse_InterfaceRequest = []\<rparr>] \<and>
   sync exampleController ''default/svc2'' =
     \<lparr>effects = [ServiceGet ''default'' ''svc2'', Log (InfoV 3), Log Warning,
                 Event (ServiceObject ''default'' ''svc2'') EventTypeWarning
                   multipleSelectionsMsg ''Endpoints update aborted''],
      err = Some MultipleNetworkSelections\<rparr>"
proof -
  let ?networks = "[\<lparr>nse_Name = ''br0'', nse_Namespace = ''default'', nse_InterfaceRequest = []\<rparr>,
          \<lparr>nse_Name = ''br1'', nse_Namespace = ''default'', nse_InterfaceRequest = []\<rparr>]"
  have h1: "SplitMetaNamespaceKey ''default/svc2'' = Inr (''default'', ''svc2'')"
    by (simp add: SplitMetaNamespaceKey_def)
  have h2: "serviceLister exampleController ''default'' ''svc2'' = Inr exampleService2"
    by (simp add: exampleController_def)
  have p: "parsePodNetworkSelections exampleUnmarshal ''br0, br1'' ''default'' = Inr ?networks"
    by code_simp
  have h3: "parsePodNetworkSelections (unmarshalSelections exampleController)
     (getNetworkAnnotations (svc_meta exampleService2)) ''default'' = Inr ?networks"
    by (simp add: exampleController_def exampleService2_def getNetworkAnnotations_def p)
  have h4: "length ?networks > 1" by simp
  from conjunct1[OF multiple_selections_abort[OF h1 h2 h3 h4]] h1 h2 h3 show ?thesis
    by (simp add: exampleService2_def)
qed

text \<open>
  C4, as stated, fails: when the Service of the key is not in the cache, \<open>sync\<close> returns
  the error of the lister to its caller.
\<close>

theorem absent_service_error_counterexample:
  "sync exampleController ''default/gone'' =
     \<lparr>effects = [ServiceGet ''default'' ''gone''], err = Some NotFound\<rparr>"
  by (simp add: sync_def SplitMetaNamespaceKey_def exampleController_def)

text \<open>
  C4, amended. When the Service of the key is not in the cache, \<open>sync\<close> does nothing but
  read the cache and return the lister's error to \<open>processNextWorkItem\<close>, which treats it
  as it treats every error of \<open>sync\<close>: it logs it at verbosity 4, as information and not
  as an error, marks the key done without adding it to the queue again, and returns
  \<open>true\<close>.
\<close>

theorem absent_service_error_dropped:
  assumes "SplitMetaNamespaceKey key = Inr (namespace, name)"
    and "serviceLister c namespace name = Inl NotFound"
  shows "sync c key = \<lparr>effects = [ServiceGet namespace name], err = Some NotFound\<rparr> \<and>
         processNextWorkItem c (key, False) =
           ([ServiceGet namespace name, Log (InfoV 4), QueueDone key], Returned True)"
  using assms by (simp add: sync_def processNextWorkItem_def)

theorem absent_service_error_dropped_witness:
  "SplitMetaNamespaceKey ''default/gone'' = Inr (''default'', ''gone'') \<and>
   serviceLister exampleController ''default'' ''gone'' = Inl NotFound \<and>
   processNextWorkItem exampleController (''default/gone'', False) =
     ([ServiceGet ''default'' ''gone'', Log (InfoV 4), QueueDone ''default/gone''], Returned True)"
proof -
  have h1: "SplitMetaNamespaceKey ''default/gone'' = Inr (''default'', ''gone'')"
    by (simp add: SplitMetaNamespaceKey_def)
  have h2: "serviceLister exampleController ''default'' ''gone'' = Inl NotFound"
    by (simp add: exampleController_def)
  from absent_service_error_dropped[OF h1 h2] h1 h2 show ?thesis by simp
qed




lemma podPorts_podsLister: "podPorts (c\<lparr>podsLister := f\<rparr>) pod ps = podPorts c pod ps"
  by (induction ps) simp_all

lemma podSubset_podsLister:
  "podSubset (c\<lparr>podsLister := f\<rparr>) svc networks pod = podSubset c svc networks pod"
  unfolding podSubset_def podPorts_podsLister by simp

lemma buildSubsets_podsLister:
  "buildSubsets (c\<lparr>podsLister := f\<rparr>) svc networks pods = buildSubsets c svc networks pods"
  by (induction pods) (simp_all add: podSubset_podsLister)

lemma podSubset_skipped:
  "snd (unmarshalStatus c (statusAnnotation pod)) \<noteq> None \<Longrightarrow>
   podSubset c svc networks pod = ([Log Warning], [])"
  by (cases "unmarshalStatus c (statusAnnotation pod)") (auto simp: podSubset_def)

text \<open>
  C8. A pod whose status annotation is missing, when \<^verbatim>\<open>json.Unmarshal\<close> refuses the
  empty text, or whose status annotation it refuses, yields no subset. The subsets built
  from the pods are those built from the other pods; and \<open>sync\<close> with this pod among the
  listed pods returns the same error or success, and has the same effects apart from the
  log, as \<open>sync\<close> with the other pods alone.
\<close>

theorem unreadable_status_pod_skipped:
  assumes "(om_Annotations (pod_meta pod) statusesKey = None \<and>
              snd (unmarshalStatus c []) \<noteq> None) \<or>
           (\<exists>v. om_Annotations (pod_meta pod) statusesKey = Some v \<and>
              snd (unmarshalStatus c v) \<noteq> None)"
  shows "snd (podSubset c svc networks pod) = [] \<and>
         snd (buildSubsets c svc networks (before @ pod # after)) =
           snd (buildSubsets c svc networks (before @ after)) \<and>
         snd (buildSubsets c svc networks (before @ pod # after)) =
           concat (map (\<lambda>p. snd (podSubset c svc networks p)) (before @ after)) \<and>
         (\<forall>p networksStatus.
            p \<in> set (before @ after) \<and>
            unmarshalStatus c (statusAnnotation p) = (networksStatus, None) \<longrightarrow>
            \<lparr>ss_Addresses = snd (podAddresses p networks networksStatus),
             ss_Ports = snd (podPorts c p (svc_Ports svc))\<rparr>
              \<in> set (snd (buildSubsets c svc networks (before @ pod # after)))) \<and>
         err (sync (c\<lparr>podsLister := (\<lambda>selector. Inr (before @ pod # after))\<rparr>) key) =
           err (sync (c\<lparr>podsLister := (\<lambda>selector. Inr (before @ after))\<rparr>) key) \<and>
         filter (\<lambda>e. \<not> isLog e)
           (effects (sync (c\<lparr>podsLister := (\<lambda>selector. Inr (before @ pod # after))\<rparr>) key)) =
         filter (\<lambda>e. \<not> isLog e)
           (effects (sync (c\<lparr>podsLister := (\<lambda>selector. Inr (before @ after))\<rparr>) key))"
proof -
  from assms have bad: "snd (unmarshalStatus c (statusAnnotation pod)) \<noteq> None"
    by (auto simp: statusAnnotation_def)
  note sk = podSubset_skipped[OF bad]
  have a: "snd (podSubset c svc networks pod) = []" for svc networks
    by (simp add: sk)
  have b: "snd (buildSubsets c svc networks (before @ pod # after)) =
           snd (buildSubsets c svc networks (before @ after))" for svc networks
    by (simp add: buildSubsets_snd a)
  have b': "snd (buildSubsets c svc networks (before @ pod # after)) =
           concat (map (\<lambda>p. snd (podSubset c svc networks p)) (before @ after))"
    unfolding b by (rule buildSubsets_snd)
  have g: "\<lparr>ss_Addresses = snd (podAddresses p networks networksStatus),
             ss_Ports = snd (podPorts c p (svc_Ports svc))\<rparr>
              \<in> set (snd (buildSubsets c svc networks (before @ pod # after)))"
    if p: "p \<in> set (before @ after)"
      and st: "unmarshalStatus c (statusAnnotation p) = (networksStatus, None)"
    for p networksStatus
  proof -
    have "snd (podSubset c svc networks p) =
        [\<lparr>ss_Addresses = snd (podAddresses p networks networksStatus),
          ss_Ports = snd (podPorts c p (svc_Ports svc))\<rparr>]"
      using st by (simp add: podSubset_def split_beta)
    with p show ?thesis unfolding b' by force
  qed
  have l: "filter (\<lambda>e. \<not> isLog e) (fst (buildSubsets c svc networks ps)) = []" for svc networks ps
    by (rule logs_no_updates[OF buildSubsets_logs])
  have e: "err (sync (c\<lparr>podsLister := (\<lambda>selector. Inr (before @ pod # after))\<rparr>) key) =
           err (sync (c\<lparr>podsLister := (\<lambda>selector. Inr (before @ after))\<rparr>) key)"
    by (simp add: sync_def Let_def split_beta buildSubsets_podsLister b
        split: sum.splits option.splits)
  have f: "filter (\<lambda>e. \<not> isLog e)
           (effects (sync (c\<lparr>podsLister := (\<lambda>selector. Inr (before @ pod # after))\<rparr>) key)) =
         filter (\<lambda>e. \<not> isLog e)
           (effects (sync (c\<lparr>podsLister := (\<lambda>selector. Inr (before @ after))\<rparr>) key))"
    by (simp add: sync_def Let_def split_beta buildSubsets_podsLister b l
        split: sum.splits option.splits)
  from a b b' g e f show ?thesis by blast
qed

text \<open>
  The pod \<^verbatim>\<open>web-0\<close> has no status annotation; the sync with it and \<^verbatim>\<open>web-1\<close>
  succeeds and sends the address of \<^verbatim>\<open>web-1\<close> to the API, as does the sync with
  \<^verbatim>\<open>web-1\<close> alone.
\<close>

theorem unreadable_status_pod_skipped_witness:
  "om_Annotations (pod_meta examplePod0) statusesKey = None \<and>
   snd (unmarshalStatus exampleController []) \<noteq> None \<and>
   snd (podSubset exampleController exampleService
          [\<lparr>nse_Name = ''br0'', nse_Namespace = ''default'', nse_InterfaceRequest = []\<rparr>]
          examplePod0) = [] \<and>
   filter (\<lambda>e. \<not> isLog e)
     (effects (sync (exampleController\<lparr>podsLister :=
                       (\<lambda>selector. Inr ([] @ examplePod0 # [examplePod1]))\<rparr>) ''default/svc'')) =
   filter (\<lambda>e. \<not> isLog e)
     (effects (sync (exampleController\<lparr>podsLister :=
                       (\<lambda>selector. Inr ([] @ [examplePod1]))\<rparr>) ''default/svc'')) \<and>
   err (sync (exampleController\<lparr>podsLister := (\<lambda>selector. Inr ([] @ [examplePod1]))\<rparr>)
          ''default/svc'') = None \<and>
   sync (exampleController\<lparr>podsLister := (\<lambda>selector. Inr ([] @ examplePod0 # [examplePod1]))\<rparr>)
     ''default/svc'' =
     (let ep' = \<lparr>eps_meta = \<lparr>om_Name = ''svc'', om_Namespace = ''default'',
                    om_ResourceVersion = ''9'', om_UID = ''uid-ep'', om_Annotations = Map.empty,
                    om_OwnerReferences =
                      [\<lparr>or_APIVersion = ''v1'', or_Kind = ''Service'', or_Name = ''svc'',
                        or_UID = ''uid-svc'', or_Controller = True,
                        or_BlockOwnerDeletion = True\<rparr>]\<rparr>,
                  eps_Subsets =
                    [\<lparr>ss_Addresses =
                        [\<lparr>ea_IP = ''10.0.0.5'', ea_NodeName = ''node-b'',
                          ea_TargetRef = \<lparr>ref_Kind = ''Pod'', ref_Name = ''web-1'',
                             ref_Namespace = ''other'', ref_ResourceVersion = ''4'',
                             ref_UID = ''uid-1''\<rparr>\<rparr>],
                      ss_Ports = [\<lparr>ep_Name = ''http'', ep_Port = 8080, ep_Protocol = ''TCP''\<rparr>]\<rparr>]\<rparr>
      in \<lparr>effects =
            [ServiceGet ''default'' ''svc'', Log (InfoV 3), PodsList [''app'' \<mapsto> ''web''],
             EndpointsGet ''default'' ''svc'', Log Warning, Log (InfoV 3),
             EndpointsCacheWrite ep', EndpointsUpdate ep', Log Info,
             Event (EndpointsObject ''default'' ''svc'') EventTypeNormal
               ''Updated to use network br0'' ''Endpoints update successful'',
             Event (ServiceObject ''default'' ''svc'') EventTypeNormal
               ''Updated to use network br0'' ''Endpoints update successful''],
          err = None\<rparr>)"
proof -
  have h1: "om_Annotations (pod_meta examplePod0) statusesKey = None"
    by (simp add: examplePod0_def selectionsKey_def statusesKey_def)
  have h2: "snd (unmarshalStatus exampleController []) \<noteq> None"
    by (simp add: exampleController_def exampleStatusUnmarshal_def)
  have same: "exampleController\<lparr>podsLister := (\<lambda>selector. Inr ([] @ examplePod0 # [examplePod1]))\<rparr> =
      exampleController"
    by (simp add: exampleController_def)
  have h3: "err (sync exampleController ''default/svc'') = None"
    by (simp add: sync_example Let_def)
  from h1 h2 have h: "(om_Annotations (pod_meta examplePod0) statusesKey = None \<and>
              snd (unmarshalStatus exampleController []) \<noteq> None) \<or>
           (\<exists>v. om_Annotations (pod_meta examplePod0) statusesKey = Some v \<and>
              snd (unmarshalStatus exampleController v) \<noteq> None)"
    by simp
  note t = unreadable_status_pod_skipped[OF h, of exampleService
      "[\<lparr>nse_Name = ''br0'', nse_Namespace = ''default'', nse_InterfaceRequest = []\<rparr>]"
      "[]" "[examplePod1]" "''default/svc''"]
  from t have t1: "snd (podSubset exampleController exampleService
          [\<lparr>nse_Name = ''br0'', nse_Namespace = ''default'', nse_InterfaceRequest = []\<rparr>]
          examplePod0) = []"
    and t2: "err (sync (exampleController\<lparr>podsLister :=
                   (\<lambda>selector. Inr ([] @ examplePod0 # [examplePod1]))\<rparr>) ''default/svc'') =
             err (sync (exampleController\<lparr>podsLister :=
                   (\<lambda>selector. Inr ([] @ [examplePod1]))\<rparr>) ''default/svc'')"
    and t3: "filter (\<lambda>e. \<not> isLog e)
     (effects (sync (exampleController\<lparr>podsLister :=
                       (\<lambda>selector. Inr ([] @ examplePod0 # [examplePod1]))\<rparr>) ''default/svc'')) =
   filter (\<lambda>e. \<not> isLog e)
     (effects (sync (exampleController\<lparr>podsLister :=
                       (\<lambda>selector. Inr ([] @ [examplePod1]))\<rparr>) ''default/svc''))"
    by blast+
  from t2 h3 same have t2': "err (sync (exampleController\<lparr>podsLister :=
                   (\<lambda>selector. Inr ([] @ [examplePod1]))\<rparr>) ''default/svc'') = None"
    by simp
  have full: "sync (exampleController\<lparr>podsLister :=
                   (\<lambda>selector. Inr ([] @ examplePod0 # [examplePod1]))\<rparr>) ''default/svc'' =
      sync exampleController ''default/svc''"
    unfolding same by (rule refl)
  show ?thesis
    unfolding full sync_example
    using h1 h2 t1 t2' t3[unfolded full sync_example] by blast
qed

section \<open>Properties of the deletion recovery\<close>














end
